theory Spec2Isabelle
  imports Main
begin

section \<open>Data model\<close>

text \<open>
  The views of \<^verbatim>\<open>main/views.py\<close> work on five tables of the relational store
  (users, groups, projects, images, annotation blobs) and on two relations: the
  many-to-many membership of users in groups (\<^verbatim>\<open>user.groups\<close>) and the
  object permission \<^verbatim>\<open>view_obj\<close> that guardian keeps per group and image.
  A table is the list of its rows; both relations are sets of pairs, since
  \<^verbatim>\<open>groups.add\<close> and \<^verbatim>\<open>assign_perm\<close> never store a pair twice.
  An owner is recorded by e-mail address (\<^verbatim>\<open>owner_email=request.user.email\<close>).
\<close>

record user =
  user_id :: nat
  user_email :: string

record group =
  group_id :: nat
  group_name :: string

record project =
  project_id :: nat
  project_owner_email :: string

record image =
  image_id :: nat
  image_owner_email :: string
  image_project_id :: nat
  image_file :: string

record annotations_json =
  annotations_id :: nat
  annotations_owner_email :: string
  annotations_image_id :: nat
  annotations_payload :: string

record store =
  users :: "user list"
  groups :: "group list"
  projects :: "project list"
  images :: "image list"
  annotations :: "annotations_json list"
  user_groups :: "(nat \<times> nat) set"
  view_obj :: "(nat \<times> nat) set"

text \<open>
  A pair of \<open>user_groups\<close> is (user id, group id); a pair of \<open>view_obj\<close> is
  (group id, image id). The group with id 1 is the public group.
\<close>

subsection \<open>Requests, responses and exceptions\<close>

datatype http_method = GET | HEAD | OPTIONS | POST | PUT | PATCH | DELETE

text \<open>
  \<^verbatim>\<open>request.data\<close>: the fields the views read. A field that is \<open>None\<close> is a key
  absent from the request; \<open>public\<close> is a string, as the views call \<^verbatim>\<open>.lower()\<close> on it.
\<close>

record data =
  image_ids :: "nat list option"
  group_ids :: "nat list option"
  public :: "string option"
  email :: "string option"
  name :: "string option"

record request =
  request_method :: http_method
  request_user :: user
  request_data :: data

text \<open>
  Every exception a view can raise. The framework answers \<open>Http404\<close> with status 404 and
  \<open>PermissionDenied\<close> with 403; any other exception is unhandled and ends the request as
  a server error.
\<close>

datatype error =
  Http404
  | PermissionDenied
  | DoesNotExist
  | MultipleObjectsReturned
  | KeyError
  | TypeError
  | AttributeError

datatype body =
  NoBody
  | ImageBody image
  | ImageListBody "image list"
  | ProjectBody project
  | AnnotationsBody annotations_json
  | GroupBody group
  | SerializerErrors

record response =
  status :: nat
  body :: body
  headers :: "(string \<times> string) list"

definition Response :: "body \<Rightarrow> nat \<Rightarrow> response" where
  "Response b st = \<lparr>status = st, body = b, headers = []\<rparr>"

fun status_code :: "error + response \<Rightarrow> nat" where
  "status_code (Inr r) = status r"
| "status_code (Inl Http404) = 404"
| "status_code (Inl PermissionDenied) = 403"
| "status_code (Inl e) = 500"

subsection \<open>Queries\<close>

text \<open>
  \<^verbatim>\<open>Model.objects.get(...)\<close> returns the only row that matches, and raises
  \<open>DoesNotExist\<close> when there is none and \<open>MultipleObjectsReturned\<close> when there are several.
\<close>

definition objects_get :: "('a \<Rightarrow> bool) \<Rightarrow> 'a list \<Rightarrow> error + 'a" where
  "objects_get P rows =
     (case filter P rows of
        [] \<Rightarrow> Inl DoesNotExist
      | [x] \<Rightarrow> Inr x
      | _ \<Rightarrow> Inl MultipleObjectsReturned)"

text \<open>\<^verbatim>\<open>Model.objects.filter(id__in=ids)\<close>, in the order of the table.\<close>

definition objects_filter_id_in :: "('a \<Rightarrow> nat) \<Rightarrow> 'a list \<Rightarrow> nat list \<Rightarrow> 'a list" where
  "objects_filter_id_in pk_of rows ids = filter (\<lambda>r. pk_of r \<in> set ids) rows"

text \<open>The module's \<^verbatim>\<open>get_object_or_404(Model, pk)\<close>.\<close>

definition get_object_or_404 :: "('a \<Rightarrow> nat) \<Rightarrow> 'a list \<Rightarrow> nat \<Rightarrow> error + 'a" where
  "get_object_or_404 pk_of rows pk =
     (case objects_get (\<lambda>r. pk_of r = pk) rows of
        Inl DoesNotExist \<Rightarrow> Inl Http404
      | Inl e \<Rightarrow> Inl e
      | Inr model \<Rightarrow> Inr model)"

section \<open>Permission predicates\<close>

text \<open>
  The permission classes are imported from \<^verbatim>\<open>main/permissions.py\<close>. Each is a
  predicate on the request and the object; the store is an argument because group
  membership and the object permissions live there.
\<close>

type_synonym permission = "store \<Rightarrow> request \<Rightarrow> image \<Rightarrow> bool"

definition SAFE_METHODS :: "http_method list" where
  "SAFE_METHODS = [GET, HEAD, OPTIONS]"

text \<open>
  Modelled from the spec: \<^verbatim>\<open>main/permissions.py\<close> is missing. "OwnerAndReadOnly: true
  if requester owns the resource AND the request is a read."
\<close>

definition IsOwnerAndReadOnlyOrRefuse :: permission where
  "IsOwnerAndReadOnlyOrRefuse s rq obj =
     (image_owner_email obj = user_email (request_user rq)
      \<and> request_method rq \<in> set SAFE_METHODS)"

text \<open>
  Modelled from the spec: \<^verbatim>\<open>main/permissions.py\<close> is missing. "OwnerOrRefuse: true
  only if requester owns the resource (any method)."
\<close>

definition IsOwnerOrRefuse :: permission where
  "IsOwnerOrRefuse s rq obj = (image_owner_email obj = user_email (request_user rq))"

text \<open>
  Modelled from the spec: \<^verbatim>\<open>main/permissions.py\<close> is missing. "ReadOnlyAndHasAccess:
  true if request is read AND requester belongs to a group granted view permission on
  the resource."
\<close>

definition IsReadOnlyAndHasAccessOrRefuse :: permission where
  "IsReadOnlyAndHasAccessOrRefuse s rq obj =
     (request_method rq \<in> set SAFE_METHODS
      \<and> (\<exists>gi \<in> view_obj s.
            snd gi = image_id obj \<and> (user_id (request_user rq), fst gi) \<in> user_groups s))"

text \<open>
  Modelled from the spec: \<^verbatim>\<open>main/permissions.py\<close> is missing. "ReadOnlyAndPublic: true
  if request is read AND the resource's grant set includes the public group."
\<close>

definition IsReadOnlyAndPublicOrRefuse :: permission where
  "IsReadOnlyAndPublicOrRefuse s rq obj =
     (request_method rq \<in> set SAFE_METHODS \<and> (1, image_id obj) \<in> view_obj s)"

text \<open>The framework's \<^verbatim>\<open>|\<close> on permission classes: either operand allows.\<close>

definition OR :: "permission \<Rightarrow> permission \<Rightarrow> permission" where
  "OR p q s rq obj = (p s rq obj \<or> q s rq obj)"

text \<open>
  \<^verbatim>\<open>self.check_object_permissions(self.request, obj)\<close> raises \<open>PermissionDenied\<close> unless
  every class of \<^verbatim>\<open>permission_classes\<close> allows; each view here lists one class.
\<close>

definition check_object_permissions :: "permission \<Rightarrow> store \<Rightarrow> request \<Rightarrow> image \<Rightarrow> error + unit" where
  "check_object_permissions perm s rq obj =
     (if perm s rq obj then Inr () else Inl PermissionDenied)"

section \<open>Media access: GetImage\<close>

text \<open>\<^verbatim>\<open>str.strip(c)\<close>, \<^verbatim>\<open>str.split(c)[-1]\<close> and \<^verbatim>\<open>str.strip()\<close>.\<close>

definition strip_char :: "char \<Rightarrow> string \<Rightarrow> string" where
  "strip_char c t = rev (dropWhile (\<lambda>x. x = c) (rev (dropWhile (\<lambda>x. x = c) t)))"

definition split_last :: "char \<Rightarrow> string \<Rightarrow> string" where
  "split_last c t = rev (takeWhile (\<lambda>x. x \<noteq> c) (rev t))"

definition is_space :: "char \<Rightarrow> bool" where
  "is_space c = (let n = (of_char c :: nat) in (9 \<le> n \<and> n \<le> 13) \<or> (28 \<le> n \<and> n \<le> 32))"

definition strip :: "string \<Rightarrow> string" where
  "strip t = rev (dropWhile is_space (rev (dropWhile is_space t)))"

record environ =
  NOTER_GS_MEDIA_BUCKET_NAME :: "string option"
  GOOGLE_APPLICATION_CREDENTIALS :: "string option"

text \<open>
  The arguments \<^verbatim>\<open>generate_signed_url\<close> is called with. The function itself is the
  external signing capability and is a parameter \<open>sign\<close> of the view.
\<close>

record signing_request =
  service_account_file :: "string option"
  http_method :: string
  bucket_name :: "string option"
  object_name :: string
  subresource :: string
  expiration :: nat

definition GetImage_permission :: permission where
  "GetImage_permission =
     OR (OR IsOwnerAndReadOnlyOrRefuse IsReadOnlyAndHasAccessOrRefuse)
        IsReadOnlyAndPublicOrRefuse"

definition GetImage_get_object :: "store \<Rightarrow> request \<Rightarrow> nat \<Rightarrow> error + image" where
  "GetImage_get_object s rq pk =
     (case objects_get (\<lambda>i. image_id i = pk) (images s) of
        Inl DoesNotExist \<Rightarrow> Inl Http404
      | Inl e \<Rightarrow> Inl e
      | Inr img \<Rightarrow>
          (case check_object_permissions GetImage_permission s rq img of
             Inl e \<Rightarrow> Inl e
           | Inr _ \<Rightarrow> Inr img))"

definition GetImage_get ::
  "(signing_request \<Rightarrow> string) \<Rightarrow> environ \<Rightarrow> store \<Rightarrow> request \<Rightarrow> nat \<Rightarrow> error + response" where
  "GetImage_get sign env s rq pk =
     (case GetImage_get_object s rq pk of
        Inl e \<Rightarrow> Inl e
      | Inr img \<Rightarrow>
          (let path = split_last CHR ''/'' (strip_char CHR ''/'' (image_file img));
               path' =
                 (if strip (case NOTER_GS_MEDIA_BUCKET_NAME env of None \<Rightarrow> [] | Some b \<Rightarrow> b) \<noteq> []
                  then sign \<lparr>service_account_file = GOOGLE_APPLICATION_CREDENTIALS env,
                             http_method = ''GET'',
                             bucket_name = NOTER_GS_MEDIA_BUCKET_NAME env,
                             object_name = path, subresource = [], expiration = 900\<rparr>
                  else path)
           in Inr \<lparr>status = 200, body = NoBody,
                   headers = [(''Content-Type'', []), (''Method'', ''GET''),
                              (''X-Accel-Redirect'', ''/protected_media/'' @ strip_char CHR ''/'' path')]\<rparr>))"

section \<open>Sharing: ShareImages\<close>

text \<open>\<^verbatim>\<open>str.lower()\<close> on the letters A to Z; other characters are kept.\<close>

definition lower_char :: "char \<Rightarrow> char" where
  "lower_char c =
     (let n = (of_char c :: nat) in if 65 \<le> n \<and> n \<le> 90 then char_of (n + 32) else c)"

definition lower :: "string \<Rightarrow> string" where
  "lower t = map lower_char t"

text \<open>
  guardian's \<^verbatim>\<open>assign_perm('view_obj', group, image)\<close> stores the pair unless it is
  there already, and \<^verbatim>\<open>remove_perm('view_obj', group, image)\<close> deletes it.
\<close>

definition assign_perm :: "group \<Rightarrow> image \<Rightarrow> store \<Rightarrow> store" where
  "assign_perm g img s = s\<lparr>view_obj := insert (group_id g, image_id img) (view_obj s)\<rparr>"

definition remove_perm :: "group \<Rightarrow> image \<Rightarrow> store \<Rightarrow> store" where
  "remove_perm g img s = s\<lparr>view_obj := view_obj s - {(group_id g, image_id img)}\<rparr>"

text \<open>\<^verbatim>\<open>'key' in request.data\<close>, on the field of that key.\<close>

definition in_data :: "'a option \<Rightarrow> bool" where
  "in_data field = (case field of None \<Rightarrow> False | Some v \<Rightarrow> True)"

text \<open>
  \<^verbatim>\<open>'public' in request.data and request.data['public'].lower() == 'true'\<close>, the
  guarded test of the validation line.
\<close>

definition public_in_data_and_true :: "data \<Rightarrow> bool" where
  "public_in_data_and_true d =
     (case public d of None \<Rightarrow> False | Some p \<Rightarrow> lower p = ''true'')"

text \<open>
  The body of the \<^verbatim>\<open>for image in ...\<close> loop of \<^verbatim>\<open>post\<close>, image by image. The store
  is written as the loop runs, so an exception leaves the writes made so far: the result
  is the exception, if any, and the store at that moment.
  \<^verbatim>\<open>request.data['public']\<close> is read without a test for the key and raises \<open>KeyError\<close>
  when the key is absent.
\<close>

fun ShareImages_post_loop :: "request \<Rightarrow> image list \<Rightarrow> store \<Rightarrow> error option \<times> store" where
  "ShareImages_post_loop rq [] s = (None, s)"
| "ShareImages_post_loop rq (img # imgs) s =
     (case check_object_permissions IsOwnerOrRefuse s rq img of
        Inl e \<Rightarrow> (Some e, s)
      | Inr _ \<Rightarrow>
          (case public (request_data rq) of
             None \<Rightarrow> (Some KeyError, s)
           | Some p \<Rightarrow>
               (case (if lower p = ''true''
                      then (case objects_get (\<lambda>g. group_id g = 1) (groups s) of
                              Inl e \<Rightarrow> Inl e
                            | Inr public_group \<Rightarrow> Inr (assign_perm public_group img s))
                      else Inr s) of
                  Inl e \<Rightarrow> (Some e, s)
                | Inr s1 \<Rightarrow>
                    ShareImages_post_loop rq imgs
                      (case group_ids (request_data rq) of
                         None \<Rightarrow> s1
                       | Some gids \<Rightarrow>
                           fold (\<lambda>g. assign_perm g img)
                             (objects_filter_id_in group_id (groups s1) gids) s1))))"

definition ShareImages_post :: "store \<Rightarrow> request \<Rightarrow> (error + response) \<times> store" where
  "ShareImages_post s rq =
     (case image_ids (request_data rq) of
        None \<Rightarrow> (Inr (Response NoBody 400), s)
      | Some ids \<Rightarrow>
          if \<not> (in_data (group_ids (request_data rq))
                \<or> public_in_data_and_true (request_data rq))
          then (Inr (Response NoBody 400), s)
          else
            (case ShareImages_post_loop rq (objects_filter_id_in image_id (images s) ids) s of
               (Some e, s') \<Rightarrow> (Inl e, s')
             | (None, s') \<Rightarrow> (Inr (Response NoBody 200), s')))"

fun ShareImages_delete_loop :: "request \<Rightarrow> nat list \<Rightarrow> image list \<Rightarrow> store \<Rightarrow> error option \<times> store" where
  "ShareImages_delete_loop rq gids [] s = (None, s)"
| "ShareImages_delete_loop rq gids (img # imgs) s =
     (case check_object_permissions IsOwnerOrRefuse s rq img of
        Inl e \<Rightarrow> (Some e, s)
      | Inr _ \<Rightarrow>
          ShareImages_delete_loop rq gids imgs
            (fold (\<lambda>g. remove_perm g img) (objects_filter_id_in group_id (groups s) gids) s))"

definition ShareImages_delete :: "store \<Rightarrow> request \<Rightarrow> (error + response) \<times> store" where
  "ShareImages_delete s rq =
     (case image_ids (request_data rq) of
        None \<Rightarrow> (Inr (Response NoBody 400), s)
      | Some ids \<Rightarrow>
          (case group_ids (request_data rq) of
             None \<Rightarrow> (Inr (Response NoBody 400), s)
           | Some gids \<Rightarrow>
               (case ShareImages_delete_loop rq gids
                       (objects_filter_id_in image_id (images s) ids) s of
                  (Some e, s') \<Rightarrow> (Inl e, s')
                | (None, s') \<Rightarrow> (Inr (Response NoBody 200), s'))))"

section \<open>Groups: CreateGroup and JoinGroup\<close>

text \<open>The primary key the store gives a new row: above every key of the table.\<close>

definition next_id :: "('a \<Rightarrow> nat) \<Rightarrow> 'a list \<Rightarrow> nat" where
  "next_id pk_of rows = Suc (Max (insert 0 (set (map pk_of rows))))"

text \<open>
  \<^verbatim>\<open>GroupSerializer\<close> is declared in \<^verbatim>\<open>main/serializers.py\<close>, which is missing, and
  is a parameter of the view: from the groups table and the request data it yields the
  validated name, or \<open>None\<close> when \<^verbatim>\<open>is_valid()\<close> is false. \<^verbatim>\<open>serializer.save()\<close> appends
  the new row.
\<close>

definition CreateGroup_post ::
  "(group list \<Rightarrow> data \<Rightarrow> string option) \<Rightarrow> store \<Rightarrow> request \<Rightarrow> (error + response) \<times> store" where
  "CreateGroup_post GroupSerializer s rq =
     (case GroupSerializer (groups s) (request_data rq) of
        None \<Rightarrow> (Inr (Response SerializerErrors 400), s)
      | Some validated_name \<Rightarrow>
          (let saved = \<lparr>group_id = next_id group_id (groups s), group_name = validated_name\<rparr>;
               s1 = s\<lparr>groups := groups s @ [saved]\<rparr>
           in case get_object_or_404 group_id (groups s1) (group_id saved) of
                Inl e \<Rightarrow> (Inl e, s1)
              | Inr grp \<Rightarrow>
                  (Inr (Response (GroupBody saved) 201),
                   s1\<lparr>user_groups :=
                        insert (user_id (request_user rq), group_id grp) (user_groups s1)\<rparr>)))"

definition get_user_or_404 :: "store \<Rightarrow> string \<Rightarrow> error + user" where
  "get_user_or_404 s e =
     (case objects_get (\<lambda>u. user_email u = e) (users s) of
        Inl DoesNotExist \<Rightarrow> Inl Http404
      | Inl err \<Rightarrow> Inl err
      | Inr u \<Rightarrow> Inr u)"

text \<open>
  \<^verbatim>\<open>get_group_or_404\<close> queries the groups but its handler names \<^verbatim>\<open>User.DoesNotExist\<close>,
  which the \<open>DoesNotExist\<close> of a group query is not: every exception of the query passes
  through.
\<close>

definition get_group_or_404 :: "store \<Rightarrow> string \<Rightarrow> error + group" where
  "get_group_or_404 s nm =
     (case objects_get (\<lambda>g. group_name g = nm) (groups s) of
        Inl err \<Rightarrow> Inl err
      | Inr g \<Rightarrow> Inr g)"

text \<open>\<^verbatim>\<open>request.user.groups.filter(name=group_name)\<close>: the user's groups of that name.\<close>

definition user_groups_filter_name :: "store \<Rightarrow> user \<Rightarrow> string \<Rightarrow> group list" where
  "user_groups_filter_name s u nm =
     filter (\<lambda>g. (user_id u, group_id g) \<in> user_groups s \<and> group_name g = nm) (groups s)"

definition JoinGroup_post :: "store \<Rightarrow> request \<Rightarrow> string \<Rightarrow> (error + response) \<times> store" where
  "JoinGroup_post s rq grp_name =
     (if user_groups_filter_name s (request_user rq) grp_name = []
      then (Inr (Response NoBody 403), s)
      else
        (case email (request_data rq) of
           None \<Rightarrow> (Inr (Response NoBody 400), s)
         | Some e \<Rightarrow>
             (case get_user_or_404 s e of
                Inl err \<Rightarrow> (Inl err, s)
              | Inr u \<Rightarrow>
                  (case get_group_or_404 s grp_name of
                     Inl err \<Rightarrow> (Inl err, s)
                   | Inr g \<Rightarrow>
                       (Inr (Response NoBody 200),
                        s\<lparr>user_groups := insert (user_id u, group_id g) (user_groups s)\<rparr>)))))"

section \<open>Projects, annotations and images\<close>

text \<open>
  \<^verbatim>\<open>ProjectDetail.get_object\<close> calls \<^verbatim>\<open>get_object_or_404(queryset, **filter)\<close>. No
  \<^verbatim>\<open>filter\<close> is bound in the method or the module, so the name is the builtin class,
  and \<^verbatim>\<open>**\<close> on a value that is not a mapping raises \<open>TypeError\<close> before the call is
  made. Had the call been made, the module's \<^verbatim>\<open>get_object_or_404\<close> reads
  \<^verbatim>\<open>Model.objects\<close> of a queryset, which has no such attribute.
\<close>

datatype pyvalue = BuiltinFilter | Mapping "(string \<times> nat) list"

fun unpack_kwargs :: "pyvalue \<Rightarrow> error + (string \<times> nat) list" where
  "unpack_kwargs BuiltinFilter = Inl TypeError"
| "unpack_kwargs (Mapping kw) = Inr kw"

definition ProjectDetail_get_object :: "store \<Rightarrow> request \<Rightarrow> error + project" where
  "ProjectDetail_get_object s rq =
     (case unpack_kwargs BuiltinFilter of
        Inl e \<Rightarrow> Inl e
      | Inr kw \<Rightarrow> Inl AttributeError)"

text \<open>The \<^verbatim>\<open>get\<close> of \<^verbatim>\<open>generics.RetrieveAPIView\<close>: serialize what \<^verbatim>\<open>get_object\<close> returns.\<close>

definition ProjectDetail_get :: "store \<Rightarrow> request \<Rightarrow> nat \<Rightarrow> error + response" where
  "ProjectDetail_get s rq pk =
     (case ProjectDetail_get_object s rq of
        Inl e \<Rightarrow> Inl e
      | Inr obj \<Rightarrow> Inr (Response (ProjectBody obj) 200))"

text \<open>
  \<^verbatim>\<open>AnnotationsJsonDetail\<close> declares a queryset and a serializer and nothing else, so
  the framework's own \<^verbatim>\<open>get_object\<close> runs: the row of that primary key or \<open>Http404\<close>,
  then the object check of the project-wide default permission classes. Those are named
  in the settings module, which is missing, and are the parameter \<open>default_permission\<close>.
\<close>

definition AnnotationsJsonDetail_get ::
  "(store \<Rightarrow> request \<Rightarrow> annotations_json \<Rightarrow> bool) \<Rightarrow> store \<Rightarrow> request \<Rightarrow> nat \<Rightarrow> error + response" where
  "AnnotationsJsonDetail_get default_permission s rq pk =
     (case objects_get (\<lambda>a. annotations_id a = pk) (annotations s) of
        Inl DoesNotExist \<Rightarrow> Inl Http404
      | Inl e \<Rightarrow> Inl e
      | Inr obj \<Rightarrow>
          if default_permission s rq obj then Inr (Response (AnnotationsBody obj) 200)
          else Inl PermissionDenied)"

text \<open>
  The object check of the framework's stock classes \<^verbatim>\<open>AllowAny\<close> and
  \<^verbatim>\<open>IsAuthenticated\<close>: they decide on the request alone and allow every object.
\<close>

definition AllowAny :: "store \<Rightarrow> request \<Rightarrow> annotations_json \<Rightarrow> bool" where
  "AllowAny s rq obj = True"

text \<open>\<^verbatim>\<open>ImageList.get\<close>: all rows of the table, serialized.\<close>

definition ImageList_get :: "store \<Rightarrow> request \<Rightarrow> error + response" where
  "ImageList_get s rq = Inr (Response (ImageListBody (images s)) 200)"

definition ImageDetail_get_object :: "store \<Rightarrow> request \<Rightarrow> nat \<Rightarrow> error + image" where
  "ImageDetail_get_object s rq pk =
     (case objects_get (\<lambda>i. image_id i = pk) (images s) of
        Inl DoesNotExist \<Rightarrow> Inl Http404
      | Inl e \<Rightarrow> Inl e
      | Inr img \<Rightarrow>
          (case check_object_permissions IsOwnerOrRefuse s rq img of
             Inl e \<Rightarrow> Inl e
           | Inr _ \<Rightarrow> Inr img))"

definition ImageDetail_get :: "store \<Rightarrow> request \<Rightarrow> nat \<Rightarrow> error + response" where
  "ImageDetail_get s rq pk =
     (case ImageDetail_get_object s rq pk of
        Inl e \<Rightarrow> Inl e
      | Inr img \<Rightarrow> Inr (Response (ImageBody img) 200))"

text \<open>
  \<^verbatim>\<open>image.delete()\<close> deletes the row of that primary key. What it does to the rows of
  other tables that refer to the image is declared in \<^verbatim>\<open>main/models.py\<close>, which is
  missing; those tables are left as they are.
\<close>

definition ImageDetail_delete :: "store \<Rightarrow> request \<Rightarrow> nat \<Rightarrow> (error + response) \<times> store" where
  "ImageDetail_delete s rq pk =
     (case ImageDetail_get_object s rq pk of
        Inl e \<Rightarrow> (Inl e, s)
      | Inr img \<Rightarrow>
          (Inr (Response NoBody 204),
           s\<lparr>images := filter (\<lambda>i. image_id i \<noteq> image_id img) (images s)\<rparr>))"

section \<open>What one pass of the sharing loop grants\<close>

text \<open>
  The ids of the groups that the body of the loop of \<^verbatim>\<open>ShareImages.post\<close> gives
  \<^verbatim>\<open>view_obj\<close> on the current image: the public group when the flag is true, and the
  groups of the table whose id is listed in \<^verbatim>\<open>group_ids\<close>.
\<close>

definition granted_group_ids :: "group list \<Rightarrow> data \<Rightarrow> nat set" where
  "granted_group_ids gs d =
     (if public_in_data_and_true d then {1} else {}) \<union>
     (case group_ids d of
        None \<Rightarrow> {}
      | Some gids \<Rightarrow> group_id ` set (objects_filter_id_in group_id gs gids))"

section \<open>A small store\<close>

text \<open>
  Two users, the public group and a group \<open>lab\<close> that alice belongs to, one image of
  each user, and one annotation.
\<close>

definition alice :: user where
  "alice = \<lparr>user_id = 1, user_email = ''alice@example.org''\<rparr>"

definition bob :: user where
  "bob = \<lparr>user_id = 2, user_email = ''bob@example.org''\<rparr>"

definition public_group :: group where
  "public_group = \<lparr>group_id = 1, group_name = ''public''\<rparr>"

definition lab :: group where
  "lab = \<lparr>group_id = 2, group_name = ''lab''\<rparr>"

definition image1 :: image where
  "image1 = \<lparr>image_id = 1, image_owner_email = ''alice@example.org'', image_project_id = 1,
             image_file = ''/media/a.png''\<rparr>"

definition image2 :: image where
  "image2 = \<lparr>image_id = 2, image_owner_email = ''bob@example.org'', image_project_id = 1,
             image_file = ''/media/b.png''\<rparr>"

definition notes1 :: annotations_json where
  "notes1 = \<lparr>annotations_id = 1, annotations_owner_email = ''alice@example.org'',
             annotations_image_id = 1, annotations_payload = ''{}''\<rparr>"

definition example_store :: store where
  "example_store =
     \<lparr>users = [alice, bob], groups = [public_group, lab],
      projects = [\<lparr>project_id = 1, project_owner_email = ''alice@example.org''\<rparr>],
      images = [image1, image2], annotations = [notes1],
      user_groups = {(1, 2)}, view_obj = {}\<rparr>"

definition no_data :: data where
  "no_data = \<lparr>image_ids = None, group_ids = None, public = None, email = None, name = None\<rparr>"

definition request_by :: "http_method \<Rightarrow> user \<Rightarrow> data \<Rightarrow> request" where
  "request_by m u d = \<lparr>request_method = m, request_user = u, request_data = d\<rparr>"

text \<open>
  No bucket is configured, so the signing function is not called; a serializer that
  accepts the name it is given.
\<close>

definition no_environ :: environ where
  "no_environ = \<lparr>NOTER_GS_MEDIA_BUCKET_NAME = None, GOOGLE_APPLICATION_CREDENTIALS = None\<rparr>"

definition no_sign :: "signing_request \<Rightarrow> string" where
  "no_sign q = object_name q"

definition name_serializer :: "group list \<Rightarrow> data \<Rightarrow> string option" where
  "name_serializer gs d = name d"

lemmas example_defs =
  alice_def bob_def public_group_def lab_def image1_def image2_def notes1_def
  example_store_def no_data_def request_by_def

section \<open>Lemmas about queries and the sharing loops\<close>

lemma store_view_obj_eq: "s\<lparr>view_obj := A\<rparr> = s \<longleftrightarrow> A = view_obj s"
  by (cases s) auto

lemma get_image1:
  "objects_get (\<lambda>i. image_id i = 1) (images (example_store\<lparr>view_obj := v\<rparr>)) = Inr image1"
  by (simp add: objects_get_def example_defs)

lemma get_image2:
  "objects_get (\<lambda>i. image_id i = 2) (images (example_store\<lparr>view_obj := v\<rparr>)) = Inr image2"
  by (simp add: objects_get_def example_defs)

lemma objects_get_Inr_iff: "objects_get P rows = Inr x \<longleftrightarrow> filter P rows = [x]"
  by (auto simp: objects_get_def split: list.splits)

lemma objects_get_DoesNotExist_iff:
  "objects_get P rows = Inl DoesNotExist \<longleftrightarrow> filter P rows = []"
  by (auto simp: objects_get_def split: list.splits)

lemma objects_get_error:
  "objects_get P rows = Inl e \<Longrightarrow> e = DoesNotExist \<or> e = MultipleObjectsReturned"
  by (auto simp: objects_get_def split: list.splits)

lemma lower_false: "lower ''false'' \<noteq> ''true''"
  by (simp add: lower_def lower_char_def)

lemma fold_assign_perm:
  "fold (\<lambda>g. assign_perm g img) gs s =
     s\<lparr>view_obj := view_obj s \<union> (\<lambda>g. (group_id g, image_id img)) ` set gs\<rparr>"
  by (induction gs arbitrary: s) (auto simp: assign_perm_def)

lemma fold_remove_perm:
  "fold (\<lambda>g. remove_perm g img) gs s =
     s\<lparr>view_obj := view_obj s - (\<lambda>g. (group_id g, image_id img)) ` set gs\<rparr>"
proof (induction gs arbitrary: s)
  case Nil
  show ?case by simp
next
  case (Cons a gs)
  have "fold (\<lambda>g. remove_perm g img) (a # gs) s =
          fold (\<lambda>g. remove_perm g img) gs (remove_perm a img s)"
    by simp
  also have "\<dots> = (remove_perm a img s)\<lparr>view_obj := view_obj (remove_perm a img s)
                 - (\<lambda>g. (group_id g, image_id img)) ` set gs\<rparr>"
    by (rule Cons.IH)
  also have "\<dots> = s\<lparr>view_obj := view_obj s - (\<lambda>g. (group_id g, image_id img)) ` set (a # gs)\<rparr>"
  proof -
    have "view_obj s - {(group_id a, image_id img)} - (\<lambda>g. (group_id g, image_id img)) ` set gs
          = view_obj s
            - insert (group_id a, image_id img) ((\<lambda>g. (group_id g, image_id img)) ` set gs)"
      by blast
    then show ?thesis by (simp add: remove_perm_def)
  qed
  finally show ?case .
qed

lemma post_loop_step:
  assumes "image_owner_email img = user_email (request_user rq)"
      and "public (request_data rq) = Some p"
      and "lower p = ''true'' \<Longrightarrow> objects_get (\<lambda>g. group_id g = 1) (groups s) = Inr pg"
  shows "ShareImages_post_loop rq (img # imgs) s =
         ShareImages_post_loop rq imgs
           (s\<lparr>view_obj := view_obj s
                 \<union> granted_group_ids (groups s) (request_data rq) \<times> {image_id img}\<rparr>)"
proof (cases "lower p = ''true''")
  case True
  from assms(3)[OF True] have "filter (\<lambda>g. group_id g = 1) (groups s) = [pg]"
    by (simp add: objects_get_Inr_iff)
  then have "pg \<in> set (filter (\<lambda>g. group_id g = 1) (groups s))" by simp
  then have pg: "group_id pg = 1" by simp
  show ?thesis using assms(1,2) assms(3)[OF True] True pg
    by (auto simp: check_object_permissions_def IsOwnerOrRefuse_def fold_assign_perm
        assign_perm_def granted_group_ids_def public_in_data_and_true_def split: option.splits
        intro!: arg_cong2[where f="ShareImages_post_loop rq"]
                arg_cong[where f="\<lambda>v. s\<lparr>view_obj := v\<rparr>"])
next
  case False
  show ?thesis using assms(1,2) False
    by (auto simp: check_object_permissions_def IsOwnerOrRefuse_def fold_assign_perm
        assign_perm_def granted_group_ids_def public_in_data_and_true_def split: option.splits
        intro!: arg_cong2[where f="ShareImages_post_loop rq"]
                arg_cong[where f="\<lambda>v. s\<lparr>view_obj := v\<rparr>"])
qed

lemma post_loop_owned_prefix:
  assumes "public (request_data rq) = Some p"
      and "lower p = ''true'' \<Longrightarrow> objects_get (\<lambda>g. group_id g = 1) (groups s) = Inr pg"
      and "list_all (\<lambda>i. image_owner_email i = user_email (request_user rq)) pre"
  shows "ShareImages_post_loop rq (pre @ rest) s =
         ShareImages_post_loop rq rest
           (s\<lparr>view_obj := view_obj s
                 \<union> granted_group_ids (groups s) (request_data rq) \<times> image_id ` set pre\<rparr>)"
  using assms
proof (induction pre arbitrary: s)
  case Nil
  then show ?case by simp
next
  case (Cons img pre)
  let ?G = "granted_group_ids (groups s) (request_data rq)"
  let ?s1 = "s\<lparr>view_obj := view_obj s \<union> ?G \<times> {image_id img}\<rparr>"
  have own: "image_owner_email img = user_email (request_user rq)"
    using Cons.prems(3) by simp
  have "ShareImages_post_loop rq ((img # pre) @ rest) s =
          ShareImages_post_loop rq (pre @ rest) ?s1"
    using post_loop_step[OF own Cons.prems(1) Cons.prems(2)] by simp
  also have "\<dots> = ShareImages_post_loop rq rest
       (?s1\<lparr>view_obj := view_obj ?s1
              \<union> granted_group_ids (groups ?s1) (request_data rq) \<times> image_id ` set pre\<rparr>)"
    using Cons.prems by (intro Cons.IH) simp_all
  also have "?s1\<lparr>view_obj := view_obj ?s1
              \<union> granted_group_ids (groups ?s1) (request_data rq) \<times> image_id ` set pre\<rparr>
      = s\<lparr>view_obj := view_obj s \<union> ?G \<times> image_id ` set (img # pre)\<rparr>"
  proof -
    have "view_obj s \<union> ?G \<times> {image_id img} \<union> ?G \<times> image_id ` set pre
          = view_obj s \<union> ?G \<times> image_id ` set (img # pre)"
      by auto
    then show ?thesis by simp
  qed
  finally show ?case .
qed

lemma post_loop_unowned:
  "image_owner_email bad \<noteq> user_email (request_user rq) \<Longrightarrow>
   ShareImages_post_loop rq (bad # rest) s = (Some PermissionDenied, s)"
  by (simp add: check_object_permissions_def IsOwnerOrRefuse_def)

lemma member_group_exists:
  assumes "user_groups_filter_name s u nm \<noteq> []"
  shows "objects_get (\<lambda>g. group_name g = nm) (groups s) \<noteq> Inl DoesNotExist"
proof -
  from assms obtain g where "g \<in> set (user_groups_filter_name s u nm)"
    by (cases "user_groups_filter_name s u nm") auto
  then have "g \<in> set (filter (\<lambda>g. group_name g = nm) (groups s))"
    by (simp add: user_groups_filter_name_def)
  then show ?thesis by (auto simp: objects_get_DoesNotExist_iff filter_empty_conv)
qed

lemma next_id_fresh: "r \<in> set rows \<Longrightarrow> pk_of r < next_id pk_of rows"
proof -
  assume "r \<in> set rows"
  then have "pk_of r \<in> insert 0 (set (map pk_of rows))" by simp
  then have "pk_of r \<le> Max (insert 0 (set (map pk_of rows)))"
    by (intro Max_ge) auto
  then show ?thesis by (simp add: next_id_def)
qed

lemma filter_fresh: "filter (\<lambda>r. pk_of r = next_id pk_of rows) rows = []"
  by (auto simp: filter_empty_conv dest: next_id_fresh[where pk_of = pk_of])

section \<open>Claims\<close>

text \<open>
  C1: for an image \<open>I\<close> of the store and a GET request for it by a user \<open>U\<close>,
  \<^verbatim>\<open>GetImage.get\<close> answers 200 if and only if \<open>U\<close> owns \<open>I\<close>, or \<open>U\<close> belongs to a group
  that holds \<^verbatim>\<open>view_obj\<close> on \<open>I\<close>, or the public group holds \<^verbatim>\<open>view_obj\<close> on \<open>I\<close>;
  any other request for \<open>I\<close> is refused with \<open>PermissionDenied\<close>, status 403.
\<close>

theorem GetImage_get_allowed_iff:
  assumes "objects_get (\<lambda>i. image_id i = pk) (images s) = Inr I"
      and "request_method rq = GET"
  shows "((\<exists>r. GetImage_get sign env s rq pk = Inr r \<and> status r = 200) \<longleftrightarrow>
            (image_owner_email I = user_email (request_user rq)
             \<or> (\<exists>gid. (user_id (request_user rq), gid) \<in> user_groups s
                      \<and> (gid, image_id I) \<in> view_obj s)
             \<or> (1, image_id I) \<in> view_obj s))
         \<and> (\<not> (image_owner_email I = user_email (request_user rq)
                \<or> (\<exists>gid. (user_id (request_user rq), gid) \<in> user_groups s
                         \<and> (gid, image_id I) \<in> view_obj s)
                \<or> (1, image_id I) \<in> view_obj s) \<longrightarrow>
              GetImage_get sign env s rq pk = Inl PermissionDenied
              \<and> status_code (GetImage_get sign env s rq pk) = 403)"
  using assms
  by (auto simp: GetImage_get_def GetImage_get_object_def check_object_permissions_def
      GetImage_permission_def OR_def IsOwnerAndReadOnlyOrRefuse_def
      IsReadOnlyAndHasAccessOrRefuse_def IsReadOnlyAndPublicOrRefuse_def SAFE_METHODS_def Let_def)

theorem GetImage_get_allowed_iff_witness:
  "(\<exists>r. GetImage_get no_sign no_environ (example_store\<lparr>view_obj := {}\<rparr>)
          (request_by GET alice no_data) 1 = Inr r \<and> status r = 200)
   \<and> (\<exists>r. GetImage_get no_sign no_environ (example_store\<lparr>view_obj := {(2, 2)}\<rparr>)
          (request_by GET alice no_data) 2 = Inr r \<and> status r = 200)
   \<and> (\<exists>r. GetImage_get no_sign no_environ (example_store\<lparr>view_obj := {(1, 1)}\<rparr>)
          (request_by GET bob no_data) 1 = Inr r \<and> status r = 200)
   \<and> GetImage_get no_sign no_environ (example_store\<lparr>view_obj := {(2, 1)}\<rparr>)
          (request_by GET bob no_data) 1 = Inl PermissionDenied"
proof -
  have m: "request_method (request_by GET u no_data) = GET" for u
    by (simp add: request_by_def)
  have a: "\<exists>r. GetImage_get no_sign no_environ (example_store\<lparr>view_obj := {}\<rparr>)
          (request_by GET alice no_data) 1 = Inr r \<and> status r = 200"
    using GetImage_get_allowed_iff[OF get_image1[of "{}"] m[of alice],
        where sign = no_sign and env = no_environ]
    by (simp add: example_defs)
  have b: "\<exists>r. GetImage_get no_sign no_environ (example_store\<lparr>view_obj := {(2, 2)}\<rparr>)
          (request_by GET alice no_data) 2 = Inr r \<and> status r = 200"
    using GetImage_get_allowed_iff[OF get_image2[of "{(2, 2)}"] m[of alice],
        where sign = no_sign and env = no_environ]
    by (simp add: example_defs)
  have c: "\<exists>r. GetImage_get no_sign no_environ (example_store\<lparr>view_obj := {(1, 1)}\<rparr>)
          (request_by GET bob no_data) 1 = Inr r \<and> status r = 200"
    using GetImage_get_allowed_iff[OF get_image1[of "{(1, 1)}"] m[of bob],
        where sign = no_sign and env = no_environ]
    by (simp add: example_defs)
  have d: "GetImage_get no_sign no_environ (example_store\<lparr>view_obj := {(2, 1)}\<rparr>)
          (request_by GET bob no_data) 1 = Inl PermissionDenied"
    using GetImage_get_allowed_iff[OF get_image1[of "{(2, 1)}"] m[of bob],
        where sign = no_sign and env = no_environ]
    by (simp add: example_defs)
  from a b c d show ?thesis by blast
qed

text \<open>
  C2: a grant request that passes the validation and whose requester owns every image
  grants view permission to each listed group and returns 200, also when \<^verbatim>\<open>group_ids\<close>
  is supplied and the public flag is absent.
  The code does not do so. The validation line tests \<^verbatim>\<open>'public' in request.data\<close> before
  it reads the key; the loop body reads \<^verbatim>\<open>request.data['public']\<close> with no such test.
  Alice asks to share her image 1 with group 2 and sends no \<^verbatim>\<open>public\<close> key: the request
  ends in \<open>KeyError\<close>, a server error, and nothing is granted.
\<close>

theorem ShareImages_post_without_public_raises:
  "ShareImages_post example_store
     (request_by POST alice (no_data\<lparr>image_ids := Some [1], group_ids := Some [2]\<rparr>))
   = (Inl KeyError, example_store)
   \<and> status_code (Inl KeyError) = 500"
  by (simp add: ShareImages_post_def example_defs objects_filter_id_in_def in_data_def
      public_in_data_and_true_def check_object_permissions_def IsOwnerOrRefuse_def)

text \<open>
  C3, as stated: every list and retrieve handler applies a permission predicate to the
  resources it returns, \<^verbatim>\<open>ImageList.get\<close> and \<^verbatim>\<open>AnnotationsJsonDetail\<close> among them.
  It fails: bob owns neither image 1 nor its annotation, belongs to no group and nothing
  is shared or public, yet the list of all images contains image 1 and the annotation is
  returned to him.
\<close>

theorem list_and_retrieve_counterexample:
  "ImageList_get example_store (request_by GET bob no_data)
     = Inr (Response (ImageListBody [image1, image2]) 200)
   \<and> \<not> GetImage_permission example_store (request_by GET bob no_data) image1
   \<and> \<not> IsOwnerOrRefuse example_store (request_by GET bob no_data) image1
   \<and> AnnotationsJsonDetail_get AllowAny example_store (request_by GET bob no_data) 1
     = Inr (Response (AnnotationsBody notes1) 200)
   \<and> annotations_owner_email notes1 \<noteq> user_email (request_user (request_by GET bob no_data))"
  by (simp add: ImageList_get_def AnnotationsJsonDetail_get_def AllowAny_def objects_get_def
      GetImage_permission_def OR_def IsOwnerAndReadOnlyOrRefuse_def
      IsReadOnlyAndHasAccessOrRefuse_def IsReadOnlyAndPublicOrRefuse_def IsOwnerOrRefuse_def
      example_defs)

text \<open>
  C3, amended: \<^verbatim>\<open>GetImage.get\<close> and \<^verbatim>\<open>ImageDetail.get\<close> return an image only if their
  permission predicate holds of the request and that image. \<^verbatim>\<open>ImageList.get\<close> applies no
  predicate: it returns all images of the store to any requester. \<^verbatim>\<open>AnnotationsJsonDetail\<close>
  names no permission class: under a default that has no object check it returns the
  annotation of the given id to any requester.
\<close>

theorem retrieval_gating:
  "(\<forall>r. GetImage_get sign env s rq pk = Inr r \<longrightarrow>
       (\<exists>img. objects_get (\<lambda>i. image_id i = pk) (images s) = Inr img
            \<and> GetImage_permission s rq img))
   \<and> (\<forall>r. ImageDetail_get s rq pk = Inr r \<longrightarrow>
       (\<exists>img. objects_get (\<lambda>i. image_id i = pk) (images s) = Inr img
            \<and> IsOwnerOrRefuse s rq img))
   \<and> ImageList_get s rq = Inr (Response (ImageListBody (images s)) 200)
   \<and> (\<forall>a. objects_get (\<lambda>a. annotations_id a = pk) (annotations s) = Inr a \<longrightarrow>
         AnnotationsJsonDetail_get AllowAny s rq pk = Inr (Response (AnnotationsBody a) 200))"
  by (auto simp: GetImage_get_def GetImage_get_object_def ImageDetail_get_def
      ImageDetail_get_object_def check_object_permissions_def ImageList_get_def
      AnnotationsJsonDetail_get_def AllowAny_def Let_def
      split: sum.splits error.splits if_splits)

theorem retrieval_gating_witness:
  "GetImage_permission example_store (request_by GET alice no_data) image1
   \<and> IsOwnerOrRefuse example_store (request_by GET alice no_data) image1
   \<and> ImageList_get example_store (request_by GET bob no_data)
      = Inr (Response (ImageListBody (images example_store)) 200)
   \<and> AnnotationsJsonDetail_get AllowAny example_store (request_by GET bob no_data) 1
      = Inr (Response (AnnotationsBody notes1) 200)"
proof -
  let ?rq = "request_by GET alice no_data"
  note g = retrieval_gating[of no_sign no_environ example_store ?rq 1]
  note h = retrieval_gating[of no_sign no_environ example_store "request_by GET bob no_data" 1]
  have i1: "objects_get (\<lambda>i. image_id i = 1) (images example_store) = Inr image1"
    by (simp add: objects_get_def example_defs)
  have a1: "objects_get (\<lambda>a. annotations_id a = 1) (annotations example_store) = Inr notes1"
    by (simp add: objects_get_def example_defs)
  have r1: "\<exists>r. GetImage_get no_sign no_environ example_store ?rq 1 = Inr r"
    by (simp add: GetImage_get_def GetImage_get_object_def check_object_permissions_def
        GetImage_permission_def OR_def IsOwnerAndReadOnlyOrRefuse_def SAFE_METHODS_def
        example_defs objects_get_def Let_def)
  have r2: "\<exists>r. ImageDetail_get example_store ?rq 1 = Inr r"
    by (simp add: ImageDetail_get_def ImageDetail_get_object_def check_object_permissions_def
        IsOwnerOrRefuse_def example_defs objects_get_def)
  from g r1 i1 have "GetImage_permission example_store ?rq image1" by auto
  moreover from g r2 i1 have "IsOwnerOrRefuse example_store ?rq image1" by auto
  moreover from h have "ImageList_get example_store (request_by GET bob no_data)
      = Inr (Response (ImageListBody (images example_store)) 200)" by blast
  moreover from h a1
  have "AnnotationsJsonDetail_get AllowAny example_store (request_by GET bob no_data) 1
      = Inr (Response (AnnotationsBody notes1) 200)" by blast
  ultimately show ?thesis by blast
qed

text \<open>
  C4: a project-detail retrieval ends with 200 and the project, with 404 or with 403, and
  never with another error.
  The code does not do so: \<^verbatim>\<open>get_object\<close> raises \<open>TypeError\<close> on every request, whatever
  the store, the requester and the id, and the request ends as a server error.
\<close>

theorem ProjectDetail_get_raises:
  "ProjectDetail_get s rq pk = Inl TypeError \<and> status_code (ProjectDetail_get s rq pk) = 500"
  by (simp add: ProjectDetail_get_def ProjectDetail_get_object_def)

text \<open>
  C5: when the acting user is a member of the named group and the request carries an
  e-mail address, \<^verbatim>\<open>JoinGroup.post\<close> answers 404 if no user has that address; the lookup
  of the group by name cannot find no group, since the membership test has found one of
  that name; and when both lookups return a row the user is added to the group and the
  answer is 200.
\<close>

theorem JoinGroup_post_add_member:
  assumes member: "user_groups_filter_name s (request_user rq) nm \<noteq> []"
      and mail: "email (request_data rq) = Some e"
  shows "(objects_get (\<lambda>u. user_email u = e) (users s) = Inl DoesNotExist \<longrightarrow>
            JoinGroup_post s rq nm = (Inl Http404, s)
            \<and> status_code (fst (JoinGroup_post s rq nm)) = 404)
       \<and> objects_get (\<lambda>g. group_name g = nm) (groups s) \<noteq> Inl DoesNotExist
       \<and> (\<forall>u g. objects_get (\<lambda>u. user_email u = e) (users s) = Inr u
                 \<and> objects_get (\<lambda>g. group_name g = nm) (groups s) = Inr g \<longrightarrow>
            JoinGroup_post s rq nm =
              (Inr (Response NoBody 200),
               s\<lparr>user_groups := insert (user_id u, group_id g) (user_groups s)\<rparr>))"
  using member mail member_group_exists[OF member]
  by (auto simp: JoinGroup_post_def get_user_or_404_def get_group_or_404_def)

theorem JoinGroup_post_add_member_witness:
  "JoinGroup_post example_store
     (request_by POST alice (no_data\<lparr>email := Some ''bob@example.org''\<rparr>)) ''lab''
     = (Inr (Response NoBody 200), example_store\<lparr>user_groups := {(2, 2), (1, 2)}\<rparr>)
   \<and> JoinGroup_post example_store
       (request_by POST alice (no_data\<lparr>email := Some ''carol@example.org''\<rparr>)) ''lab''
     = (Inl Http404, example_store)"
proof -
  let ?rq = "request_by POST alice (no_data\<lparr>email := Some ''bob@example.org''\<rparr>)"
  let ?rq' = "request_by POST alice (no_data\<lparr>email := Some ''carol@example.org''\<rparr>)"
  have m: "user_groups_filter_name example_store (request_user ?rq) ''lab'' \<noteq> []"
    by (simp add: user_groups_filter_name_def example_defs)
  have m': "user_groups_filter_name example_store (request_user ?rq') ''lab'' \<noteq> []"
    by (simp add: user_groups_filter_name_def example_defs)
  have e: "email (request_data ?rq) = Some ''bob@example.org''"
    by (simp add: example_defs)
  have e': "email (request_data ?rq') = Some ''carol@example.org''"
    by (simp add: example_defs)
  have u: "objects_get (\<lambda>u. user_email u = ''bob@example.org'') (users example_store) = Inr bob"
    by (simp add: objects_get_def example_defs)
  have g: "objects_get (\<lambda>g. group_name g = ''lab'') (groups example_store) = Inr lab"
    by (simp add: objects_get_def example_defs)
  have n: "objects_get (\<lambda>u. user_email u = ''carol@example.org'') (users example_store)
             = Inl DoesNotExist"
    by (simp add: objects_get_def example_defs)
  have "JoinGroup_post example_store ?rq ''lab'' =
          (Inr (Response NoBody 200),
           example_store\<lparr>user_groups :=
             insert (user_id bob, group_id lab) (user_groups example_store)\<rparr>)"
    using JoinGroup_post_add_member[OF m e] u g by blast
  moreover have "JoinGroup_post example_store ?rq' ''lab'' = (Inl Http404, example_store)"
    using JoinGroup_post_add_member[OF m' e'] n by blast
  ultimately show ?thesis by (simp add: example_defs)
qed

text \<open>
  C6: \<^verbatim>\<open>ShareImages.post\<close> checks the ownership of the images one by one, in the order
  of the query. At the first image the requester does not own the request ends with 403,
  and the grants made on the images before it stay in the store. The images before it are
  processed by the loop body, which reads the \<^verbatim>\<open>public\<close> key and, when the flag is
  true, the public group: where there are such images, the key and the group are there.
\<close>

theorem ShareImages_post_fails_at_first_unowned:
  assumes ids: "image_ids (request_data rq) = Some ids"
      and valid: "in_data (group_ids (request_data rq))
                  \<or> public_in_data_and_true (request_data rq)"
      and batch: "objects_filter_id_in image_id (images s) ids = pre @ bad # rest"
      and owned: "list_all (\<lambda>i. image_owner_email i = user_email (request_user rq)) pre"
      and unowned: "image_owner_email bad \<noteq> user_email (request_user rq)"
      and pub: "pre \<noteq> [] \<Longrightarrow> in_data (public (request_data rq))"
      and pg: "pre \<noteq> [] \<Longrightarrow> public_in_data_and_true (request_data rq) \<Longrightarrow>
                 objects_get (\<lambda>g. group_id g = 1) (groups s) = Inr pg"
  shows "ShareImages_post s rq =
           (Inl PermissionDenied,
            s\<lparr>view_obj := view_obj s
                 \<union> granted_group_ids (groups s) (request_data rq) \<times> image_id ` set pre\<rparr>)
         \<and> status_code (fst (ShareImages_post s rq)) = 403"
proof -
  have loop: "ShareImages_post_loop rq (pre @ bad # rest) s =
          (Some PermissionDenied,
           s\<lparr>view_obj := view_obj s
                \<union> granted_group_ids (groups s) (request_data rq) \<times> image_id ` set pre\<rparr>)"
  proof (cases "pre = []")
    case True
    then show ?thesis using post_loop_unowned[OF unowned] by simp
  next
    case False
    from pub[OF False] obtain p where p: "public (request_data rq) = Some p"
      by (auto simp: in_data_def split: option.splits)
    have "lower p = ''true'' \<Longrightarrow> objects_get (\<lambda>g. group_id g = 1) (groups s) = Inr pg"
      using pg[OF False] p by (simp add: public_in_data_and_true_def)
    from post_loop_owned_prefix[OF p this owned] post_loop_unowned[OF unowned]
    show ?thesis by simp
  qed
  then show ?thesis
    using ids valid batch by (auto simp: ShareImages_post_def)
qed

theorem ShareImages_post_fails_at_first_unowned_witness:
  "ShareImages_post example_store
     (request_by POST alice
        (no_data\<lparr>image_ids := Some [1, 2], group_ids := Some [2], public := Some ''false''\<rparr>))
   = (Inl PermissionDenied, example_store\<lparr>view_obj := {(2, 1)}\<rparr>)"
proof -
  let ?rq = "request_by POST alice
        (no_data\<lparr>image_ids := Some [1, 2], group_ids := Some [2], public := Some ''false''\<rparr>)"
  have ids: "image_ids (request_data ?rq) = Some [1, 2]"
    by (simp add: example_defs)
  have valid: "in_data (group_ids (request_data ?rq)) \<or> public_in_data_and_true (request_data ?rq)"
    by (simp add: example_defs in_data_def)
  have batch: "objects_filter_id_in image_id (images example_store) [1, 2] = [image1] @ image2 # []"
    by (simp add: example_defs objects_filter_id_in_def)
  have owned: "list_all (\<lambda>i. image_owner_email i = user_email (request_user ?rq)) [image1]"
    by (simp add: example_defs)
  have unowned: "image_owner_email image2 \<noteq> user_email (request_user ?rq)"
    by (simp add: example_defs)
  have pub: "[image1] \<noteq> [] \<Longrightarrow> in_data (public (request_data ?rq))"
    by (simp add: example_defs in_data_def)
  have not_true: "\<not> public_in_data_and_true (request_data ?rq)"
    using lower_false by (simp add: public_in_data_and_true_def example_defs)
  then have pg: "[image1] \<noteq> [] \<Longrightarrow> public_in_data_and_true (request_data ?rq) \<Longrightarrow>
              objects_get (\<lambda>g. group_id g = 1) (groups example_store) = Inr public_group"
    by simp
  have g: "granted_group_ids (groups example_store) (request_data ?rq) = {2}"
    using not_true
    by (simp add: granted_group_ids_def) (simp add: example_defs objects_filter_id_in_def)
  from ShareImages_post_fails_at_first_unowned[OF ids valid batch owned unowned pub pg]
  have "ShareImages_post example_store ?rq =
          (Inl PermissionDenied,
           example_store\<lparr>view_obj := view_obj example_store
              \<union> granted_group_ids (groups example_store) (request_data ?rq)
                 \<times> image_id ` set [image1]\<rparr>)"
    by simp
  also have "view_obj example_store
              \<union> granted_group_ids (groups example_store) (request_data ?rq)
                 \<times> image_id ` set [image1] = {(2, 1)}"
    unfolding g by (simp add: example_defs)
  finally show ?thesis .
qed

text \<open>
  C7, as stated: a grant for a group on an image followed by the revoke for the same
  group and image leaves the image's access state as it was before the grant, also when
  the group held view permission before the grant.
  It fails in that case: group 2 holds \<^verbatim>\<open>view_obj\<close> on image 1, the grant changes
  nothing and the revoke removes the pair that was there.
\<close>

theorem grant_then_revoke_counterexample:
  "ShareImages_post (example_store\<lparr>view_obj := {(2, 1)}\<rparr>)
     (request_by POST alice
        (no_data\<lparr>image_ids := Some [1], group_ids := Some [2], public := Some ''false''\<rparr>))
     = (Inr (Response NoBody 200), example_store\<lparr>view_obj := {(2, 1)}\<rparr>)
   \<and> ShareImages_delete (example_store\<lparr>view_obj := {(2, 1)}\<rparr>)
       (request_by DELETE alice (no_data\<lparr>image_ids := Some [1], group_ids := Some [2]\<rparr>))
     = (Inr (Response NoBody 200), example_store\<lparr>view_obj := {}\<rparr>)
   \<and> example_store\<lparr>view_obj := {}\<rparr> \<noteq> example_store\<lparr>view_obj := {(2, 1)}\<rparr>"
  using lower_false
  by (simp add: ShareImages_post_def ShareImages_delete_def example_defs objects_filter_id_in_def
      in_data_def public_in_data_and_true_def check_object_permissions_def IsOwnerOrRefuse_def
      assign_perm_def remove_perm_def)

text \<open>
  C7, amended: for an image of the store owned by the requester and a group of the
  store, a grant for the group on the image (the public flag not true) followed by the
  revoke for the same group and image both answer 200 and leave the store as it was
  before the grant with the pair of that group and image removed. So the state before the
  grant is restored if and only if the group did not hold view permission on the image
  before the grant.
\<close>

theorem grant_then_revoke:
  assumes img: "objects_filter_id_in image_id (images s) [i] = [img]"
      and own: "image_owner_email img = user_email (request_user rq1)"
      and grp: "g \<in> group_id ` set (groups s)"
      and d1: "image_ids (request_data rq1) = Some [i]" "group_ids (request_data rq1) = Some [g]"
              "public (request_data rq1) = Some p" "lower p \<noteq> ''true''"
      and d2: "image_ids (request_data rq2) = Some [i]" "group_ids (request_data rq2) = Some [g]"
              "request_user rq2 = request_user rq1"
  shows "ShareImages_post s rq1 =
           (Inr (Response NoBody 200), s\<lparr>view_obj := insert (g, i) (view_obj s)\<rparr>)
       \<and> ShareImages_delete (snd (ShareImages_post s rq1)) rq2 =
           (Inr (Response NoBody 200), s\<lparr>view_obj := view_obj s - {(g, i)}\<rparr>)
       \<and> (snd (ShareImages_delete (snd (ShareImages_post s rq1)) rq2) = s
            \<longleftrightarrow> (g, i) \<notin> view_obj s)"
proof -
  have "img \<in> set (objects_filter_id_in image_id (images s) [i])"
    using img by simp
  then have i: "image_id img = i"
    by (simp add: objects_filter_id_in_def)
  have gs: "group_id ` set (objects_filter_id_in group_id (groups s) [g]) = {g}"
    using grp by (auto simp: objects_filter_id_in_def)
  have G: "granted_group_ids (groups s) (request_data rq1) = {g}"
    using d1 gs by (simp add: granted_group_ids_def public_in_data_and_true_def)
  have "ShareImages_post_loop rq1 [img] s =
          (None, s\<lparr>view_obj := view_obj s
                      \<union> granted_group_ids (groups s) (request_data rq1) \<times> {image_id img}\<rparr>)"
    using post_loop_step[OF own d1(3), of s _ "[]"] d1(4) by simp
  then have post: "ShareImages_post s rq1 =
           (Inr (Response NoBody 200), s\<lparr>view_obj := insert (g, i) (view_obj s)\<rparr>)"
    using d1 img by (simp add: ShareImages_post_def in_data_def G i)
  let ?s1 = "s\<lparr>view_obj := insert (g, i) (view_obj s)\<rparr>"
  have img1: "objects_filter_id_in image_id (images ?s1) [i] = [img]"
    using img by simp
  have gs1: "(\<lambda>x. (group_id x, image_id img))
               ` set (objects_filter_id_in group_id (groups ?s1) [g]) = {(g, i)}"
    using grp by (auto simp: objects_filter_id_in_def i)
  have "insert (g, i) (view_obj s) - {(g, i)} = view_obj s - {(g, i)}" by blast
  then have del: "ShareImages_delete ?s1 rq2 =
           (Inr (Response NoBody 200), s\<lparr>view_obj := view_obj s - {(g, i)}\<rparr>)"
    using d2 own img1 gs1
    by (simp add: ShareImages_delete_def check_object_permissions_def IsOwnerOrRefuse_def
        fold_remove_perm)
  have "s\<lparr>view_obj := view_obj s - {(g, i)}\<rparr> = s \<longleftrightarrow> (g, i) \<notin> view_obj s"
    by (auto simp: store_view_obj_eq)
  then show ?thesis using post del by simp
qed

theorem grant_then_revoke_witness:
  "snd (ShareImages_delete
          (snd (ShareImages_post example_store
             (request_by POST alice
               (no_data\<lparr>image_ids := Some [1], group_ids := Some [2],
                         public := Some ''false''\<rparr>))))
          (request_by DELETE alice (no_data\<lparr>image_ids := Some [1], group_ids := Some [2]\<rparr>)))
   = example_store"
proof -
  let ?rq1 = "request_by POST alice
               (no_data\<lparr>image_ids := Some [1], group_ids := Some [2],
                         public := Some ''false''\<rparr>)"
  let ?rq2 = "request_by DELETE alice (no_data\<lparr>image_ids := Some [1], group_ids := Some [2]\<rparr>)"
  have img: "objects_filter_id_in image_id (images example_store) [1] = [image1]"
    by (simp add: example_defs objects_filter_id_in_def)
  have own: "image_owner_email image1 = user_email (request_user ?rq1)"
    by (simp add: example_defs)
  have grp: "2 \<in> group_id ` set (groups example_store)"
    by (simp add: example_defs)
  have d1: "image_ids (request_data ?rq1) = Some [1]" "group_ids (request_data ?rq1) = Some [2]"
           "public (request_data ?rq1) = Some ''false''"
    by (simp_all add: example_defs)
  have d2: "image_ids (request_data ?rq2) = Some [1]" "group_ids (request_data ?rq2) = Some [2]"
           "request_user ?rq2 = request_user ?rq1"
    by (simp_all add: example_defs)
  have "(2, 1) \<notin> view_obj example_store"
    by (simp add: example_defs)
  then show ?thesis
    using grant_then_revoke[OF img own grp d1 lower_false d2] by blast
qed

text \<open>
  C8: for an image of the store, \<^verbatim>\<open>ImageDetail.delete\<close> by a requester who is not the
  owner is refused with 403 and the image stays; by the owner it answers 204, and after it
  every retrieval of that id, by \<^verbatim>\<open>ImageDetail.get\<close> or \<^verbatim>\<open>GetImage.get\<close> and by any
  requester, answers 404.
\<close>

theorem ImageDetail_delete_owner:
  assumes "objects_get (\<lambda>i. image_id i = pk) (images s) = Inr I"
  shows "(image_owner_email I \<noteq> user_email (request_user rq) \<longrightarrow>
            ImageDetail_delete s rq pk = (Inl PermissionDenied, s)
            \<and> status_code (fst (ImageDetail_delete s rq pk)) = 403
            \<and> objects_get (\<lambda>i. image_id i = pk) (images (snd (ImageDetail_delete s rq pk)))
                = Inr I)
       \<and> (image_owner_email I = user_email (request_user rq) \<longrightarrow>
            ImageDetail_delete s rq pk =
              (Inr (Response NoBody 204),
               s\<lparr>images := filter (\<lambda>i. image_id i \<noteq> pk) (images s)\<rparr>)
            \<and> (\<forall>rq'. ImageDetail_get (snd (ImageDetail_delete s rq pk)) rq' pk = Inl Http404
                    \<and> GetImage_get sign env (snd (ImageDetail_delete s rq pk)) rq' pk
                        = Inl Http404))"
proof -
  from assms have f: "filter (\<lambda>i. image_id i = pk) (images s) = [I]"
    by (simp add: objects_get_Inr_iff)
  then have "I \<in> set (filter (\<lambda>i. image_id i = pk) (images s))" by simp
  then have pk: "image_id I = pk" by simp
  have gone: "objects_get (\<lambda>i. image_id i = pk) (filter (\<lambda>i. image_id i \<noteq> pk) (images s))
                = Inl DoesNotExist"
    by (simp add: objects_get_DoesNotExist_iff)
  show ?thesis
    using assms pk gone
    by (simp add: ImageDetail_delete_def ImageDetail_get_object_def check_object_permissions_def
        IsOwnerOrRefuse_def ImageDetail_get_def GetImage_get_def GetImage_get_object_def)
qed

theorem ImageDetail_delete_owner_witness:
  "ImageDetail_delete example_store (request_by DELETE bob no_data) 1
     = (Inl PermissionDenied, example_store)
   \<and> ImageDetail_delete example_store (request_by DELETE alice no_data) 1
     = (Inr (Response NoBody 204), example_store\<lparr>images := [image2]\<rparr>)
   \<and> ImageDetail_get (example_store\<lparr>images := [image2]\<rparr>) (request_by GET alice no_data) 1
     = Inl Http404
   \<and> GetImage_get no_sign no_environ (example_store\<lparr>images := [image2]\<rparr>)
        (request_by GET alice no_data) 1 = Inl Http404"
proof -
  let ?del = "ImageDetail_delete example_store (request_by DELETE alice no_data) 1"
  have i1: "objects_get (\<lambda>i. image_id i = 1) (images example_store) = Inr image1"
    by (simp add: objects_get_def example_defs)
  have nb: "image_owner_email image1 \<noteq> user_email (request_user (request_by DELETE bob no_data))"
    by (simp add: example_defs)
  have oa: "image_owner_email image1 = user_email (request_user (request_by DELETE alice no_data))"
    by (simp add: example_defs)
  have f: "filter (\<lambda>i. image_id i \<noteq> 1) (images example_store) = [image2]"
    by (simp add: example_defs)
  note b = ImageDetail_delete_owner[OF i1, of "request_by DELETE bob no_data" no_sign no_environ]
  note a = ImageDetail_delete_owner[OF i1, of "request_by DELETE alice no_data" no_sign no_environ]
  from b nb have 1: "ImageDetail_delete example_store (request_by DELETE bob no_data) 1
     = (Inl PermissionDenied, example_store)" by blast
  from a oa have 2: "?del = (Inr (Response NoBody 204), example_store\<lparr>images := [image2]\<rparr>)"
    unfolding f by blast
  from a oa have "\<forall>rq'. ImageDetail_get (snd ?del) rq' 1 = Inl Http404
       \<and> GetImage_get no_sign no_environ (snd ?del) rq' 1 = Inl Http404"
    by blast
  then have 3: "ImageDetail_get (example_store\<lparr>images := [image2]\<rparr>)
        (request_by GET alice no_data) 1 = Inl Http404
   \<and> GetImage_get no_sign no_environ (example_store\<lparr>images := [image2]\<rparr>)
        (request_by GET alice no_data) 1 = Inl Http404"
    unfolding 2 by simp
  from 1 2 3 show ?thesis by blast
qed

text \<open>
  C9: when \<^verbatim>\<open>CreateGroup.post\<close> answers 201, the body is the new group, the group is in
  the store, the requester has been made a member of it, and the membership test of
  \<^verbatim>\<open>JoinGroup\<close> for the group's name holds of the requester: no request of the requester
  to \<^verbatim>\<open>JoinGroup.post\<close> for that name is answered 403.
\<close>

theorem CreateGroup_post_adds_creator:
  assumes "CreateGroup_post GroupSerializer s rq = (Inr r, s')" and "status r = 201"
  shows "\<exists>g. body r = GroupBody g
           \<and> objects_get (\<lambda>x. group_id x = group_id g) (groups s') = Inr g
           \<and> (user_id (request_user rq), group_id g) \<in> user_groups s'
           \<and> user_groups_filter_name s' (request_user rq) (group_name g) \<noteq> []
           \<and> (\<forall>rq'. request_user rq' = request_user rq \<longrightarrow>
                 status_code (fst (JoinGroup_post s' rq' (group_name g))) \<noteq> 403)"
proof -
  from assms obtain nm where nm: "GroupSerializer (groups s) (request_data rq) = Some nm"
    by (cases "GroupSerializer (groups s) (request_data rq)")
       (auto simp: CreateGroup_post_def Response_def)
  let ?g = "\<lparr>group_id = next_id group_id (groups s), group_name = nm\<rparr>"
  have found: "objects_get (\<lambda>x. group_id x = next_id group_id (groups s)) (groups s @ [?g])
                 = Inr ?g"
    by (simp add: objects_get_Inr_iff filter_fresh)
  have res: "r = Response (GroupBody ?g) 201"
    and s': "s' = s\<lparr>groups := groups s @ [?g],
                      user_groups :=
                        insert (user_id (request_user rq), group_id ?g) (user_groups s)\<rparr>"
    using assms(1) nm found by (auto simp: CreateGroup_post_def get_object_or_404_def Let_def)
  have member: "user_groups_filter_name s' (request_user rq) (group_name ?g) \<noteq> []"
    by (simp add: s' user_groups_filter_name_def)
  have "status_code (fst (JoinGroup_post s' rq' (group_name ?g))) \<noteq> 403"
    if "request_user rq' = request_user rq" for rq'
  proof -
    have m: "user_groups_filter_name s' (request_user rq') (group_name ?g) \<noteq> []"
      using member that by simp
    then have ex: "objects_get (\<lambda>x. group_name x = group_name ?g) (groups s')
                     \<noteq> Inl DoesNotExist"
      by (rule member_group_exists)
    show ?thesis using m ex
      by (auto simp: JoinGroup_post_def get_user_or_404_def get_group_or_404_def Response_def
          split: option.splits sum.splits error.splits dest: objects_get_error)
  qed
  then show ?thesis
    using res s' found member by (auto simp: Response_def)
qed

theorem CreateGroup_post_adds_creator_witness:
  "CreateGroup_post name_serializer example_store
     (request_by POST bob (no_data\<lparr>name := Some ''team''\<rparr>))
   = (Inr (Response (GroupBody \<lparr>group_id = 3, group_name = ''team''\<rparr>) 201),
      example_store\<lparr>groups := [public_group, lab, \<lparr>group_id = 3, group_name = ''team''\<rparr>],
                    user_groups := {(2, 3), (1, 2)}\<rparr>)
   \<and> user_groups_filter_name
        (example_store\<lparr>groups := [public_group, lab, \<lparr>group_id = 3, group_name = ''team''\<rparr>],
                      user_groups := {(2, 3), (1, 2)}\<rparr>) bob ''team'' \<noteq> []"
proof -
  let ?rq = "request_by POST bob (no_data\<lparr>name := Some ''team''\<rparr>)"
  let ?g = "\<lparr>group_id = 3, group_name = ''team''\<rparr>"
  let ?s' = "example_store\<lparr>groups := [public_group, lab, ?g], user_groups := {(2, 3), (1, 2)}\<rparr>"
  have run: "CreateGroup_post name_serializer example_store ?rq
               = (Inr (Response (GroupBody ?g) 201), ?s')"
    by (simp add: CreateGroup_post_def name_serializer_def next_id_def get_object_or_404_def
        objects_get_def Let_def Response_def example_defs numeral_3_eq_3)
  have st: "status (Response (GroupBody ?g) 201) = 201"
    by (simp add: Response_def)
  from CreateGroup_post_adds_creator[OF run st]
  have "user_groups_filter_name ?s' (request_user ?rq) ''team'' \<noteq> []"
    by (auto simp: Response_def)
  then have "user_groups_filter_name ?s' bob ''team'' \<noteq> []"
    by (simp add: request_by_def)
  with run show ?thesis by blast
qed

text \<open>
  C10: \<^verbatim>\<open>ImageDetail.get\<close> returns the record of an image exactly when the image is in
  the store and the requester owns it. Membership of a group that holds \<^verbatim>\<open>view_obj\<close> on
  the image and a grant to the public group play no part: neither occurs in the condition.
\<close>

theorem ImageDetail_get_owner_only:
  "ImageDetail_get s rq pk = Inr r \<longleftrightarrow>
     (\<exists>I. objects_get (\<lambda>i. image_id i = pk) (images s) = Inr I
          \<and> image_owner_email I = user_email (request_user rq)
          \<and> r = Response (ImageBody I) 200)"
  by (auto simp: ImageDetail_get_def ImageDetail_get_object_def check_object_permissions_def
      IsOwnerOrRefuse_def split: sum.splits error.splits)

theorem ImageDetail_get_owner_only_witness:
  "ImageDetail_get (example_store\<lparr>view_obj := {(1, 2), (2, 2)}\<rparr>) (request_by GET bob no_data) 2
     = Inr (Response (ImageBody image2) 200)
   \<and> (\<nexists>r. ImageDetail_get (example_store\<lparr>view_obj := {(1, 2), (2, 2)}\<rparr>)
             (request_by GET alice no_data) 2 = Inr r)
   \<and> (\<exists>r. GetImage_get no_sign no_environ (example_store\<lparr>view_obj := {(1, 2), (2, 2)}\<rparr>)
             (request_by GET alice no_data) 2 = Inr r)"
proof -
  let ?s = "example_store\<lparr>view_obj := {(1, 2), (2, 2)}\<rparr>"
  have "ImageDetail_get ?s (request_by GET bob no_data) 2 = Inr (Response (ImageBody image2) 200)"
    using ImageDetail_get_owner_only[of ?s "request_by GET bob no_data" 2
        "Response (ImageBody image2) 200"]
      get_image2[of "{(1, 2), (2, 2)}"]
    by (simp add: example_defs)
  moreover have "\<nexists>r. ImageDetail_get ?s (request_by GET alice no_data) 2 = Inr r"
    using ImageDetail_get_owner_only[of ?s "request_by GET alice no_data" 2]
      get_image2[of "{(1, 2), (2, 2)}"]
    by (simp add: example_defs)
  moreover have "\<exists>r. GetImage_get no_sign no_environ ?s (request_by GET alice no_data) 2 = Inr r"
    by (simp add: GetImage_get_def GetImage_get_object_def check_object_permissions_def
      GetImage_permission_def OR_def IsOwnerAndReadOnlyOrRefuse_def
      IsReadOnlyAndHasAccessOrRefuse_def IsReadOnlyAndPublicOrRefuse_def SAFE_METHODS_def
      Let_def example_defs objects_get_def)
  ultimately show ?thesis by blast
qed

end
